theory Spec2Isabelle
  imports Main "HOL-Library.Word"
begin

unbundle bit_operations_syntax

section \<open>Platform types and colour macros\<close>

type_synonym BYTE = "8 word"
type_synonym WORD = "16 word"
type_synonym COLORREF = "32 word"

text \<open>
  Modelled from the spec: the macros \<open>GetRValue\<close>, \<open>GetGValue\<close>, \<open>GetBValue\<close> and \<open>RGB\<close>
  used by \<open>TextColor::SetColor\<close> and \<open>TextColor::_GetRGB\<close> belong to the host platform's
  headers and are not part of TextColor.cpp. The spec describes them as the
  pack/unpack pair between three 8-bit components and the platform colour. They are
  written here over a 32-bit \<open>COLORREF\<close> laid out as \<open>0x00bbggrr\<close>:
  \<^verbatim>\<open>
  #define GetRValue(rgb) (LOBYTE(rgb))
  #define GetGValue(rgb) (LOBYTE(((WORD)(rgb)) >> 8))
  #define GetBValue(rgb) (LOBYTE((rgb) >> 16))
  #define RGB(r,g,b) ((COLORREF)(((BYTE)(r) | ((WORD)((BYTE)(g)) << 8)) | (((DWORD)(BYTE)(b)) << 16)))
  \<close>
\<close>

definition LOBYTE :: "'a::len word \<Rightarrow> BYTE" where
  "LOBYTE w = ucast (w AND 0xff)"

definition GetRValue :: "COLORREF \<Rightarrow> BYTE" where
  "GetRValue rgb = LOBYTE rgb"

definition GetGValue :: "COLORREF \<Rightarrow> BYTE" where
  "GetGValue rgb = LOBYTE (drop_bit 8 (ucast rgb :: WORD))"

definition GetBValue :: "COLORREF \<Rightarrow> BYTE" where
  "GetBValue rgb = LOBYTE (drop_bit 16 rgb)"

definition RGB :: "BYTE \<Rightarrow> BYTE \<Rightarrow> BYTE \<Rightarrow> COLORREF" where
  "RGB r g b = (ucast r OR push_bit 8 (ucast g)) OR push_bit 16 (ucast b)"

section \<open>The colour value\<close>

text \<open>
  Modelled from the spec: the header TextColor.h, which declares the \<open>ColorType\<close>
  enumeration, the fields of \<open>TextColor\<close> and its default constructor, is not among
  the sources. The spec gives a discriminant with the three values Default, RGB and
  Indexed, stored in one tag byte next to three payload bytes, where the index shares
  storage with one of the colour components (taken here to be the first, \<open>_red\<close>), and
  a default-constructed value that is Default. The enumerators are numbered
  \<open>IsIndex = 0\<close>, \<open>IsDefault = 1\<close>, \<open>IsRgb = 2\<close>; the payload of a default-constructed
  value, which the spec leaves open, is zero.
\<close>

datatype ColorType = ColorType_IsIndex | ColorType_IsDefault | ColorType_IsRgb

text \<open>\<open>static_cast<BYTE>(ColorType::...)\<close>\<close>

fun static_cast_BYTE :: "ColorType \<Rightarrow> BYTE" where
  "static_cast_BYTE ColorType_IsIndex = 0"
| "static_cast_BYTE ColorType_IsDefault = 1"
| "static_cast_BYTE ColorType_IsRgb = 2"

record TextColor =
  meta :: BYTE
  red :: BYTE
  green :: BYTE
  blue :: BYTE

text \<open>\<open>_index\<close> is the member of the anonymous union that overlays \<open>_red\<close>.\<close>

definition index :: "TextColor \<Rightarrow> BYTE" where
  "index tc = red tc"

definition index_update :: "BYTE \<Rightarrow> TextColor \<Rightarrow> TextColor" where
  "index_update v tc = tc\<lparr>red := v\<rparr>"

definition TextColor_default :: TextColor where
  "TextColor_default =
     \<lparr>meta = static_cast_BYTE ColorType_IsDefault, red = 0, green = 0, blue = 0\<rparr>"

subsection \<open>Queries\<close>

definition IsDefault :: "TextColor \<Rightarrow> bool" where
  "IsDefault tc = (meta tc = static_cast_BYTE ColorType_IsDefault)"

definition IsRgb :: "TextColor \<Rightarrow> bool" where
  "IsRgb tc = (meta tc = static_cast_BYTE ColorType_IsRgb)"

definition IsLegacy :: "TextColor \<Rightarrow> bool" where
  "IsLegacy tc = (\<not> (IsDefault tc \<or> IsRgb tc))"

subsection \<open>Setters\<close>

definition SetColor :: "COLORREF \<Rightarrow> TextColor \<Rightarrow> TextColor" where
  "SetColor rgbColor tc =
     tc\<lparr>meta := static_cast_BYTE ColorType_IsRgb,
        red := GetRValue rgbColor,
        green := GetGValue rgbColor,
        blue := GetBValue rgbColor\<rparr>"

definition SetIndex :: "BYTE \<Rightarrow> TextColor \<Rightarrow> TextColor" where
  "SetIndex i tc = index_update i (tc\<lparr>meta := static_cast_BYTE ColorType_IsIndex\<rparr>)"

definition SetDefault :: "TextColor \<Rightarrow> TextColor" where
  "SetDefault tc = tc\<lparr>meta := static_cast_BYTE ColorType_IsDefault\<rparr>"

subsection \<open>Resolution\<close>

text \<open>
  \<open>FAIL_FAST_IF\<close> terminates the process when its condition holds. \<open>GetColor\<close> has
  three such checks; the model keeps apart which one fired. Reading a
  \<open>std::basic_string_view\<close> with \<open>operator[]\<close> at a position that is not below its
  size has no defined behaviour: that outcome is the separate error \<open>OutOfBounds\<close>,
  carrying the position read.
\<close>

datatype check =
    TableBelowIndex       \<comment> \<open>\<open>FAIL_FAST_IF(colorTable.size() < _index)\<close>\<close>
  | TableBelow16          \<comment> \<open>\<open>FAIL_FAST_IF(colorTable.size() < 16)\<close>\<close>
  | BrightIndexAboveTable \<comment> \<open>\<open>FAIL_FAST_IF((size_t)(_index + 8) > (size_t)(colorTable.size()))\<close>\<close>

datatype error = FailFast check | OutOfBounds nat

definition at :: "COLORREF list \<Rightarrow> nat \<Rightarrow> error + COLORREF" where
  "at colorTable pos =
     (if pos < length colorTable then Inr (colorTable ! pos) else Inl (OutOfBounds pos))"

definition GetRGB :: "TextColor \<Rightarrow> COLORREF" where
  "GetRGB tc = RGB (red tc) (green tc) (blue tc)"

definition GetColor :: "TextColor \<Rightarrow> COLORREF list \<Rightarrow> COLORREF \<Rightarrow> bool \<Rightarrow> error + COLORREF" where
  "GetColor tc colorTable defaultColor brighten =
     (if IsDefault tc then Inr defaultColor
      else if IsRgb tc then Inr (GetRGB tc)
      else if length colorTable < unat (index tc) then Inl (FailFast TableBelowIndex)
      else if brighten \<and> index tc < 8 then
        (if length colorTable < 16 then Inl (FailFast TableBelow16)
         else if unat (index tc) + 8 > length colorTable then Inl (FailFast BrightIndexAboveTable)
         else at colorTable (unat (index tc) + 8))
      else at colorTable (unat (index tc)))"

text \<open>The outcome "the process was terminated by a fail-fast check".\<close>

fun is_fail_fast :: "error + COLORREF \<Rightarrow> bool" where
  "is_fail_fast (Inl (FailFast c)) = True"
| "is_fail_fast r = False"

subsection \<open>Reachable values\<close>

text \<open>
  A reachable value is the result of any sequence of setter calls on a
  default-constructed value.
\<close>

datatype setter = CallSetDefault | CallSetColor COLORREF | CallSetIndex BYTE

fun call :: "TextColor \<Rightarrow> setter \<Rightarrow> TextColor" where
  "call tc CallSetDefault = SetDefault tc"
| "call tc (CallSetColor c) = SetColor c tc"
| "call tc (CallSetIndex i) = SetIndex i tc"

definition reached :: "setter list \<Rightarrow> TextColor" where
  "reached calls = foldl call TextColor_default calls"

section \<open>Auxiliary facts\<close>

subsection \<open>The colour macros\<close>

lemma low_byte_mask: "(0xff :: 'a::len word) = mask 8"
  by (simp add: mask_eq_exp_minus_1)

lemma LOBYTE_ucast: "LOBYTE w = ucast w"
  unfolding LOBYTE_def low_byte_mask
  by (rule bit_word_eqI) (auto simp add: bit_simps dest: bit_imp_le_length)

lemma RGB_of_components:
  "RGB (GetRValue C) (GetGValue C) (GetBValue C) = take_bit 24 C"
proof (rule bit_word_eqI)
  fix n :: nat
  assume "n < LENGTH(32)"
  consider "n < 8" | "8 \<le> n" "n < 16" | "16 \<le> n" "n < 24" | "24 \<le> n"
    by linarith
  then show "bit (RGB (GetRValue C) (GetGValue C) (GetBValue C)) n = bit (take_bit 24 C) n"
    unfolding RGB_def GetRValue_def GetGValue_def GetBValue_def LOBYTE_ucast
    by cases (auto simp add: bit_simps)
qed

lemma take_bit_24_below: "(C :: COLORREF) < 2 ^ 24 \<Longrightarrow> take_bit 24 C = C"
  by (simp add: take_bit_eq_mask less_mask_eq)

subsection \<open>Setters and the tag\<close>

lemma meta_SetIndex: "meta (SetIndex i tc) = 0"
  by (simp add: SetIndex_def index_update_def)

lemma index_SetIndex: "index (SetIndex i tc) = i"
  by (simp add: SetIndex_def index_update_def index_def)

lemma IsLegacy_SetIndex: "IsLegacy (SetIndex i tc)"
  by (simp add: IsLegacy_def IsDefault_def IsRgb_def meta_SetIndex)

lemma meta_call: "meta (call tc s) \<in> {0, 1, 2}"
  by (cases s) (simp_all add: SetDefault_def SetColor_def meta_SetIndex)

lemma meta_foldl_call: "meta tc \<in> {0, 1, 2} \<Longrightarrow> meta (foldl call tc calls) \<in> {0, 1, 2}"
proof (induction calls arbitrary: tc)
  case Nil
  then show ?case by simp
next
  case (Cons s calls)
  show ?case
    using Cons.IH [OF meta_call [of tc s]] by simp
qed

lemma meta_reached: "meta (reached calls) \<in> {0, 1, 2}"
  unfolding reached_def by (rule meta_foldl_call) (simp add: TextColor_default_def)

subsection \<open>Resolution of an indexed value\<close>

lemma GetColor_legacy:
  "IsLegacy tc \<Longrightarrow> GetColor tc P D b =
     (if length P < unat (index tc) then Inl (FailFast TableBelowIndex)
      else if b \<and> index tc < 8 then
        (if length P < 16 then Inl (FailFast TableBelow16)
         else if unat (index tc) + 8 > length P then Inl (FailFast BrightIndexAboveTable)
         else at P (unat (index tc) + 8))
      else at P (unat (index tc)))"
  by (simp add: GetColor_def IsLegacy_def)

lemma unat_below_8: "(i :: BYTE) < 8 \<Longrightarrow> unat i < 8"
  by (simp add: word_less_nat_alt)

text \<open>
  The top byte of a \<open>COLORREF\<close> is not stored: a colour that uses it does not come
  back from \<open>SetColor\<close> and \<open>GetColor\<close>.
\<close>

lemma SetColor_drops_top_byte:
  "GetColor (SetColor 0x01000000 TextColor_default) [] 0 False = Inr 0"
  using RGB_of_components [of "0x01000000"]
  by (simp add: GetColor_def SetColor_def IsDefault_def IsRgb_def GetRGB_def)

section \<open>Properties\<close>

text \<open>
  C1. The claim: an indexed value whose index equals the length of the colour table,
  resolved without brightening, ends in the fail-fast path. The code does otherwise:
  its first check is \<open>colorTable.size() < _index\<close>, which is false when the two are
  equal, so no fail-fast check fires and \<open>colorTable[_index]\<close> reads one position
  past the last entry of the table.
\<close>

theorem GetColor_index_at_size_reads_past_table:
  "IsLegacy tc \<Longrightarrow> unat (index tc) = length P \<Longrightarrow>
     GetColor tc P D False = Inl (OutOfBounds (length P)) \<and>
     \<not> is_fail_fast (GetColor tc P D False)"
  by (simp add: GetColor_legacy at_def)

theorem GetColor_index_at_size_reads_past_table_witness:
  "GetColor (SetIndex 16 TextColor_default)
     [0, 1, 2, 3, 4, 5, 6, 7, 8, 9, 10, 11, 12, 13, 14, 15] 0 False = Inl (OutOfBounds 16) \<and>
   \<not> is_fail_fast (GetColor (SetIndex 16 TextColor_default)
     [0, 1, 2, 3, 4, 5, 6, 7, 8, 9, 10, 11, 12, 13, 14, 15] 0 False)"
  using GetColor_index_at_size_reads_past_table
    [of "SetIndex 16 TextColor_default" "[0, 1, 2, 3, 4, 5, 6, 7, 8, 9, 10, 11, 12, 13, 14, 15]" 0]
  by (simp add: IsLegacy_SetIndex index_SetIndex)

text \<open>
  C2. For every index \<open>i\<close> from 0 to 7, every colour table \<open>P\<close> with at least 16
  entries and every default colour \<open>D\<close>: after \<open>SetIndex i\<close>, \<open>GetColor\<close> with
  brightening returns \<open>P[i + 8]\<close> and without brightening returns \<open>P[i]\<close>.
\<close>

theorem GetColor_SetIndex_dark:
  "i < 8 \<Longrightarrow> 16 \<le> length P \<Longrightarrow>
     GetColor (SetIndex i tc) P D True = Inr (P ! (unat i + 8)) \<and>
     GetColor (SetIndex i tc) P D False = Inr (P ! unat i)"
  using unat_below_8 [of i]
  by (simp add: GetColor_legacy IsLegacy_SetIndex index_SetIndex at_def)

theorem GetColor_SetIndex_dark_witness:
  "GetColor (SetIndex 3 TextColor_default)
     [0, 1, 2, 3, 4, 5, 6, 7, 8, 9, 10, 11, 12, 13, 14, 15] 99 True = Inr 11 \<and>
   GetColor (SetIndex 3 TextColor_default)
     [0, 1, 2, 3, 4, 5, 6, 7, 8, 9, 10, 11, 12, 13, 14, 15] 99 False = Inr 3"
  using GetColor_SetIndex_dark
    [of 3 "[0, 1, 2, 3, 4, 5, 6, 7, 8, 9, 10, 11, 12, 13, 14, 15]" TextColor_default 99]
  by simp

text \<open>
  C3. For every colour \<open>C\<close> with 8 bits per channel (a \<open>COLORREF\<close> below \<open>2 ^ 24\<close>, its
  top byte zero), every colour table, default colour and brighten flag, and whatever
  the value held before: \<open>SetColor C\<close> followed by \<open>GetColor\<close> returns exactly \<open>C\<close>.
\<close>

theorem GetColor_SetColor_roundtrip:
  "C < 2 ^ 24 \<Longrightarrow> GetColor (SetColor C tc) P D b = Inr C"
  using RGB_of_components [of C] take_bit_24_below [of C]
  by (simp add: GetColor_def SetColor_def IsDefault_def IsRgb_def GetRGB_def)

theorem GetColor_SetColor_roundtrip_witness:
  "(0x123456 :: COLORREF) < 2 ^ 24 \<and>
   GetColor (SetColor 0x123456 (SetIndex 5 TextColor_default)) [] 7 True = Inr 0x123456"
  using GetColor_SetColor_roundtrip [of "0x123456" "SetIndex 5 TextColor_default" "[]" 7 True]
  by simp

text \<open>
  C4. For every index \<open>i\<close> from 8 to 255, every colour table \<open>P\<close> longer than \<open>i\<close> and
  every default colour: after \<open>SetIndex i\<close>, \<open>GetColor\<close> returns \<open>P[i]\<close> with and
  without brightening.
\<close>

theorem GetColor_SetIndex_not_dark:
  "8 \<le> i \<Longrightarrow> unat i < length P \<Longrightarrow>
     GetColor (SetIndex i tc) P D True = Inr (P ! unat i) \<and>
     GetColor (SetIndex i tc) P D False = Inr (P ! unat i)"
  by (simp add: GetColor_legacy IsLegacy_SetIndex index_SetIndex at_def not_less [symmetric])

theorem GetColor_SetIndex_not_dark_witness:
  "GetColor (SetIndex 12 TextColor_default)
     [0, 1, 2, 3, 4, 5, 6, 7, 8, 9, 10, 11, 12, 13, 14, 15] 99 True = Inr 12 \<and>
   GetColor (SetIndex 12 TextColor_default)
     [0, 1, 2, 3, 4, 5, 6, 7, 8, 9, 10, 11, 12, 13, 14, 15] 99 False = Inr 12"
  using GetColor_SetIndex_not_dark
    [of 12 "[0, 1, 2, 3, 4, 5, 6, 7, 8, 9, 10, 11, 12, 13, 14, 15]" TextColor_default 99]
  by simp

text \<open>
  C5. For every colour table, default colour \<open>D\<close> and brighten flag: after
  \<open>SetDefault\<close>, \<open>GetColor\<close> returns exactly \<open>D\<close>, whatever the table holds and however
  long it is.
\<close>

theorem GetColor_SetDefault: "GetColor (SetDefault tc) P D b = Inr D"
  by (simp add: GetColor_def SetDefault_def IsDefault_def)

text \<open>
  C6. For an indexed value with index \<open>i < 8\<close>, \<open>GetColor\<close> with brightening on a colour
  table \<open>P\<close> ends in the fail-fast path whenever \<open>P\<close> has fewer than 16 entries or fewer
  than \<open>i + 8\<close>; otherwise it returns \<open>P[i + 8]\<close>.
\<close>

theorem GetColor_brighten_dark:
  "IsLegacy tc \<Longrightarrow> index tc < 8 \<Longrightarrow>
     (if length P < 16 \<or> length P < unat (index tc) + 8
      then is_fail_fast (GetColor tc P D True)
      else GetColor tc P D True = Inr (P ! (unat (index tc) + 8)))"
  using unat_below_8 [of "index tc"]
  by (simp add: GetColor_legacy at_def)

theorem GetColor_brighten_dark_witness:
  "is_fail_fast (GetColor (SetIndex 3 TextColor_default) [0, 1, 2, 3, 4, 5, 6, 7] 99 True) \<and>
   GetColor (SetIndex 3 TextColor_default)
     [0, 1, 2, 3, 4, 5, 6, 7, 8, 9, 10, 11, 12, 13, 14, 15] 99 True = Inr 11"
  using GetColor_brighten_dark [of "SetIndex 3 TextColor_default" "[0, 1, 2, 3, 4, 5, 6, 7]" 99]
    GetColor_brighten_dark
      [of "SetIndex 3 TextColor_default" "[0, 1, 2, 3, 4, 5, 6, 7, 8, 9, 10, 11, 12, 13, 14, 15]" 99]
  by (simp add: IsLegacy_SetIndex index_SetIndex)

text \<open>
  C7. For every value reached from a default-constructed one by any sequence of
  \<open>SetDefault\<close>, \<open>SetColor\<close> and \<open>SetIndex\<close> calls: \<open>IsLegacy\<close> holds exactly when
  \<open>IsDefault\<close> and \<open>IsRgb\<close> are both false; exactly one of the three queries holds;
  and \<open>IsLegacy\<close> holds exactly when the tag is the one of an indexed value.
\<close>

theorem IsLegacy_reached:
  "IsLegacy (reached calls) = (\<not> IsDefault (reached calls) \<and> \<not> IsRgb (reached calls)) \<and>
   count_list [IsDefault (reached calls), IsRgb (reached calls), IsLegacy (reached calls)] True = 1 \<and>
   IsLegacy (reached calls) = (meta (reached calls) = static_cast_BYTE ColorType_IsIndex)"
  using meta_reached [of calls]
  by (auto simp add: IsLegacy_def IsDefault_def IsRgb_def)

text \<open>
  C8. \<open>SetIndex\<close> takes any byte, has no failing path (it is a total function on
  values), sets the tag to the one of an indexed value and stores the byte it was
  given, unchanged, as the index.
\<close>

theorem SetIndex_stores_index:
  "meta (SetIndex i tc) = static_cast_BYTE ColorType_IsIndex \<and>
   index (SetIndex i tc) = i \<and>
   IsLegacy (SetIndex i tc)"
  by (simp add: meta_SetIndex index_SetIndex IsLegacy_SetIndex)

text \<open>
  C9. \<open>SetDefault\<close>, from any prior value, sets the tag to Default and leaves the
  three payload bytes (red, which is also the index, green and blue) as they were; it
  has no failing path.
\<close>

theorem SetDefault_frame:
  "meta (SetDefault tc) = static_cast_BYTE ColorType_IsDefault \<and>
   red (SetDefault tc) = red tc \<and>
   green (SetDefault tc) = green tc \<and>
   blue (SetDefault tc) = blue tc \<and>
   index (SetDefault tc) = index tc"
  by (simp add: SetDefault_def index_def)

text \<open>
  C10. In the brighten branch of \<open>GetColor\<close> the third check, that \<open>_index + 8\<close> exceeds
  the size of the colour table, never fires: it is reached only with an index below
  8 and a table of at least 16 entries, where \<open>_index + 8\<close> is at most 15. No call of
  \<open>GetColor\<close> ends in that check's fail-fast.
\<close>

theorem GetColor_third_check_dead:
  "GetColor tc P D b \<noteq> Inl (FailFast BrightIndexAboveTable)"
proof (cases "b \<and> index tc < 8 \<and> 16 \<le> length P")
  case True
  then have "unat (index tc) + 8 < length P"
    using unat_below_8 [of "index tc"] by simp
  then show ?thesis
    by (simp add: GetColor_def at_def)
next
  case False
  then show ?thesis
    by (auto simp add: GetColor_def at_def)
qed

end
